theory Spec2Isabelle
  imports Main "HOL-Library.Sublist"
begin

section \<open>Python values shared by the scripts\<close>

text \<open>
  An exception is an instance of Python's \<^verbatim>\<open>Exception\<close>: the name of its class and the
  text that \<^verbatim>\<open>str(e)\<close> gives. The handlers of the functions modelled here are
  \<^verbatim>\<open>except Exception as e\<close> (one is \<^verbatim>\<open>except json.JSONDecodeError as e\<close>), so these
  are the exceptions the handlers see; signals outside that class
  (\<^verbatim>\<open>KeyboardInterrupt\<close>, \<^verbatim>\<open>SystemExit\<close>) are not modelled.
  A call that may raise returns \<open>exn + 'a\<close>, with \<open>Inl\<close> for the raise.
\<close>

datatype exn = Exn (exn_class: string) (exn_text: string)

text \<open>
  \<^verbatim>\<open>str.lower()\<close> on the characters that \<open>char\<close> has: an ASCII capital is replaced
  by its small letter, every other character stays.
\<close>

definition ascii_uppercase :: string where
  "ascii_uppercase = ''ABCDEFGHIJKLMNOPQRSTUVWXYZ''"

definition ascii_lowercase :: string where
  "ascii_lowercase = ''abcdefghijklmnopqrstuvwxyz''"

definition lower_char :: "char \<Rightarrow> char" where
  "lower_char c =
     (case map_of (zip ascii_uppercase ascii_lowercase) c of Some l \<Rightarrow> l | None \<Rightarrow> c)"

definition lower :: "string \<Rightarrow> string" where
  "lower s = map lower_char s"

text \<open>\<^verbatim>\<open>needle in haystack\<close> on strings: the needle starts at some position.\<close>

fun str_in :: "string \<Rightarrow> string \<Rightarrow> bool" where
  "str_in needle [] = (needle = [])"
| "str_in needle (c # cs) = (prefix needle (c # cs) \<or> str_in needle cs)"

section \<open>The agent of langgraph\_agent.py\<close>

subsection \<open>Messages and the agent state\<close>

text \<open>
  A message of the conversation. \<open>tool_calls\<close> is \<open>None\<close> for a message class without
  that attribute (\<^verbatim>\<open>hasattr\<close> is false) and \<open>Some cs\<close> for one that has it; an
  \<^verbatim>\<open>AIMessage\<close> built from a content alone has the empty list.
\<close>

datatype msg_type = Human | AI | System | Tool

record tool_call =
  tc_name :: string
  tc_args :: "(string \<times> string) list"

record message =
  msg_type :: msg_type
  content :: string
  tool_calls :: "tool_call list option"

definition HumanMessage :: "string \<Rightarrow> message" where
  "HumanMessage c = \<lparr>msg_type = Human, content = c, tool_calls = None\<rparr>"

definition AIMessage :: "string \<Rightarrow> message" where
  "AIMessage c = \<lparr>msg_type = AI, content = c, tool_calls = Some []\<rparr>"

definition SystemMessage :: "string \<Rightarrow> message" where
  "SystemMessage c = \<lparr>msg_type = System, content = c, tool_calls = None\<rparr>"

record AgentState =
  messages :: "message list"
  task :: string
  result :: string
  iterations :: int
  max_iterations :: int

text \<open>
  What \<^verbatim>\<open>llm_with_tools.invoke\<close> gives back: a plain string or a message object, or it
  raises. The model is an oracle outside the program; it is given the number of calls
  made before and the messages sent, so that it may answer differently each time.
\<close>

datatype llm_response = Str string | Obj message

type_synonym llm = "nat \<Rightarrow> message list \<Rightarrow> exn + llm_response"

text \<open>
  The agent object. \<open>self_max_iterations\<close> and \<open>model_name\<close> are the attributes that
  \<^verbatim>\<open>__init__\<close> stores; \<open>llm_with_tools\<close> is the bound model. The compiled graph comes
  from the graph library: \<open>tool_node\<close> stands for \<^verbatim>\<open>ToolNode(tools)\<close>, which reads the
  state and gives the messages to append or raises, and \<open>recursion_limit\<close> is the
  number of node executions the library allows one \<^verbatim>\<open>invoke\<close>.
\<close>

record OllamaAgent =
  model_name :: string
  self_max_iterations :: int
  llm_with_tools :: llm
  tool_node :: "AgentState \<Rightarrow> exn + message list"
  recursion_limit :: nat

subsection \<open>The nodes\<close>

definition agent_system_message :: message where
  "agent_system_message = SystemMessage
     (''You are a helpful AI assistant with access to tools. '' @ [CHR 0x0A] @
      ''When you need to use a tool, format your response to indicate which tool to use.'' @ [CHR 0x0A] @
      ''Always think step-by-step and use tools when appropriate.'' @ [CHR 0x0A] @
      ''After using tools, provide a clear final answer to the user.'')"

text \<open>
  \<^verbatim>\<open>_agent_node\<close>: the dictionary it returns (the state with some keys replaced) or
  the exception that leaves it, and the number of model calls made so far, which the
  node raises by one exactly when it invokes the model. The whole model call stands in
  \<^verbatim>\<open>try\<close>, so each exception of the call ends in the handler.
\<close>

definition agent_node ::
  "OllamaAgent \<Rightarrow> AgentState \<Rightarrow> nat \<Rightarrow> (exn + AgentState) \<times> nat" where
  "agent_node self state calls =
     (let msgs = messages state; its = iterations state in
      if its \<ge> self_max_iterations self then
        (Inr (state\<lparr>result := ''Maximum iterations reached.'', iterations := its\<rparr>), calls)
      else
        (case llm_with_tools self calls (agent_system_message # msgs) of
           Inr response \<Rightarrow>
             (let ai_message = (case response of Str s \<Rightarrow> AIMessage s | Obj m \<Rightarrow> m) in
              (Inr (state\<lparr>messages := [ai_message], iterations := its + 1\<rparr>), Suc calls))
         | Inl e \<Rightarrow>
             (let error_message = AIMessage (''Error: '' @ exn_text e) in
              (Inr (state\<lparr>messages := [error_message], iterations := its + 1\<rparr>), Suc calls))))"

datatype route = Continue | End

definition tool_indicators :: "string list" where
  "tool_indicators = [''calculate'', ''time'', ''docker'', ''search'', ''memory'']"

text \<open>
  \<^verbatim>\<open>_should_continue\<close>. \<^verbatim>\<open>messages[-1]\<close> is read first and raises IndexError on an empty
  list.
\<close>

definition should_continue :: "OllamaAgent \<Rightarrow> AgentState \<Rightarrow> exn + route" where
  "should_continue self state =
     (case messages state of
        [] \<Rightarrow> Inl (Exn ''IndexError'' ''list index out of range'')
      | _ # _ \<Rightarrow>
          (let last_message = last (messages state) in
           if iterations state \<ge> self_max_iterations self then Inr End
           else if (case tool_calls last_message of Some (_ # _) \<Rightarrow> True | _ \<Rightarrow> False)
             then Inr Continue
           else if msg_type last_message = AI \<and>
                   list_ex (\<lambda>indicator. str_in indicator (lower (content last_message)))
                     tool_indicators
             then Inr Continue
           else Inr End))"

subsection \<open>The graph\<close>

text \<open>
  The state graph of \<^verbatim>\<open>_create_graph\<close>: the key \<^verbatim>\<open>messages\<close> is declared with
  \<^verbatim>\<open>operator.add\<close>, so what a node returns under it is appended to the list of the
  state; every other key a node returns replaces the value of the state.
\<close>

definition apply_update :: "AgentState \<Rightarrow> AgentState \<Rightarrow> AgentState" where
  "apply_update state upd = upd\<lparr>messages := messages state @ messages upd\<rparr>"

definition GraphRecursionError :: exn where
  "GraphRecursionError = Exn ''GraphRecursionError'' ''Recursion limit reached''"

text \<open>
  One \<^verbatim>\<open>invoke\<close> of the compiled graph, from the entry point \<^verbatim>\<open>agent\<close>: the agent node
  runs, \<^verbatim>\<open>_should_continue\<close> picks the edge, \<^verbatim>\<open>continue\<close> leads to the tool node and
  from there back to the agent, \<^verbatim>\<open>end\<close> leaves the graph. The first argument counts the
  node executions still allowed. The result is the final state or the exception that
  left the graph, the number of model calls made, and every state the graph went
  through, oldest first.
\<close>

fun graph_loop ::
  "OllamaAgent \<Rightarrow> nat \<Rightarrow> AgentState \<Rightarrow> nat \<Rightarrow> (exn + AgentState) \<times> nat \<times> AgentState list"
where
  "graph_loop self 0 state calls = (Inl GraphRecursionError, calls, [])"
| "graph_loop self (Suc fuel) state calls =
     (case agent_node self state calls of
        (Inl e, calls') \<Rightarrow> (Inl e, calls', [])
      | (Inr upd, calls') \<Rightarrow>
          (let state' = apply_update state upd
           in case should_continue self state' of
                Inl e \<Rightarrow> (Inl e, calls', [state'])
              | Inr End \<Rightarrow> (Inr state', calls', [state'])
              | Inr Continue \<Rightarrow>
                  (case fuel of
                     0 \<Rightarrow> (Inl GraphRecursionError, calls', [state'])
                   | Suc fuel' \<Rightarrow>
                       (case tool_node self state' of
                          Inl e \<Rightarrow> (Inl e, calls', [state'])
                        | Inr tool_messages \<Rightarrow>
                            (let state'' = state'\<lparr>messages := messages state' @ tool_messages\<rparr>;
                                 (r, c, trace) = graph_loop self fuel' state'' calls'
                             in (r, c, state' # state'' # trace))))))"

definition graph_invoke ::
  "OllamaAgent \<Rightarrow> AgentState \<Rightarrow> (exn + AgentState) \<times> nat \<times> AgentState list" where
  "graph_invoke self input_state =
     (let (r, c, trace) = graph_loop self (recursion_limit self) input_state 0
      in (r, c, input_state # trace))"

definition initial_state :: "OllamaAgent \<Rightarrow> string \<Rightarrow> AgentState" where
  "initial_state self t =
     \<lparr>messages = [HumanMessage t], task = t, result = [], iterations = 0,
      max_iterations = self_max_iterations self\<rparr>"

text \<open>
  \<^verbatim>\<open>run\<close>: what it returns. The console output under \<^verbatim>\<open>verbose\<close> does not change
  the returned value and is left out.
\<close>

definition run :: "OllamaAgent \<Rightarrow> string \<Rightarrow> exn + string" where
  "run self t =
     (case fst (graph_invoke self (initial_state self t)) of
        Inr final_state \<Rightarrow>
          (if messages final_state \<noteq> [] then Inr (content (last (messages final_state)))
           else Inr ''No response generated.'')
      | Inl e \<Rightarrow> Inr (''Error running agent: '' @ exn_text e))"

section \<open>The tools of langgraph\_agent.py\<close>

text \<open>
  Each tool returns \<open>exn + string\<close>: its string, or the exception that leaves it.
  What the tools read from outside the program: \<open>py_eval\<close> is
  \<^verbatim>\<open>eval(expression, {"__builtins__": {}}, {})\<close> followed by the formatting of its value
  (either may raise), \<open>now_strftime\<close> is the formatted clock, and \<open>docker_ps\<close> is the
  outcome of \<^verbatim>\<open>subprocess.run(["docker", "ps"], ...)\<close>.
\<close>

record CompletedProcess =
  returncode :: int
  stdout :: string

record tool_env =
  py_eval :: "string \<Rightarrow> exn + string"
  now_strftime :: string
  docker_ps :: "exn + CompletedProcess"

definition calculate :: "tool_env \<Rightarrow> string \<Rightarrow> exn + string" where
  "calculate env expression =
     (case py_eval env expression of
        Inr result_str \<Rightarrow> Inr (''Result: '' @ result_str)
      | Inl e \<Rightarrow> Inr (''Error calculating: '' @ exn_text e))"

definition get_current_time :: "tool_env \<Rightarrow> exn + string" where
  "get_current_time env = Inr (now_strftime env)"

text \<open>\<^verbatim>\<open>str.strip()\<close>, \<^verbatim>\<open>str.split('\n')\<close> and \<^verbatim>\<open>str(n)\<close> as the tool uses them.\<close>

definition whitespace :: "char list" where
  "whitespace = [CHR 0x09, CHR 0x0A, CHR 0x0B, CHR 0x0C, CHR 0x0D,
     CHR 0x1C, CHR 0x1D, CHR 0x1E, CHR 0x1F, CHR 0x20]"

definition strip :: "string \<Rightarrow> string" where
  "strip s =
     rev (dropWhile (\<lambda>c. c \<in> set whitespace) (rev (dropWhile (\<lambda>c. c \<in> set whitespace) s)))"

fun split_on :: "char \<Rightarrow> string \<Rightarrow> string list" where
  "split_on sep [] = [[]]"
| "split_on sep (c # cs) =
     (if c = sep then [] # split_on sep cs
      else (case split_on sep cs of w # ws \<Rightarrow> (c # w) # ws | [] \<Rightarrow> [[c]]))"

fun str_nat :: "nat \<Rightarrow> string" where
  "str_nat n =
     (if n < 10 then [''0123456789'' ! n] else str_nat (n div 10) @ [''0123456789'' ! (n mod 10)])"

definition str_int :: "int \<Rightarrow> string" where
  "str_int i = (if i < 0 then ''-'' @ str_nat (nat (- i)) else str_nat (nat i))"

definition check_docker_status :: "tool_env \<Rightarrow> exn + string" where
  "check_docker_status env =
     (case docker_ps env of
        Inr res \<Rightarrow>
          (if returncode res = 0 then
             (let container_count = int (length (split_on (CHR 0x0A) (strip (stdout res)))) - 1
              in Inr (''Docker is running. '' @ str_int container_count @ '' container(s) active.''))
           else Inr ''Docker is not running or not accessible.'')
      | Inl e \<Rightarrow> Inr (''Cannot check Docker status: '' @ exn_text e))"

definition docs :: "(string \<times> string) list" where
  "docs =
     [(''docker'', ''Docker is a platform for developing, shipping, and running applications in containers. Key commands: docker run, docker build, docker ps.''),
      (''ollama'', ''Ollama is a tool for running large language models locally. Use '' @ [CHR 0x27] @ ''ollama pull'' @ [CHR 0x27] @ '' to download models and '' @ [CHR 0x27] @ ''ollama run'' @ [CHR 0x27] @ '' to interact with them.''),
      (''langgraph'', ''LangGraph is a library for building stateful, multi-actor applications with LLMs. It uses graphs to define agent workflows.''),
      (''zscaler'', ''Zscaler is a cloud security platform. For Docker, add the Zscaler root certificate to the container'' @ [CHR 0x27] @ ''s trust store.'')]"

definition search_documentation :: "string \<Rightarrow> exn + string" where
  "search_documentation query =
     (let query_lower = lower query in
      case find (\<lambda>(key, val). str_in key query_lower) docs of
        Some (key, val) \<Rightarrow>
          Inr (''Documentation for '' @ [CHR 0x27] @ key @ [CHR 0x27] @ '': '' @ val)
      | None \<Rightarrow>
          Inr ''No documentation found for that query. Try: docker, ollama, langgraph, or zscaler.'')"

text \<open>
  \<^verbatim>\<open>write_to_memory\<close> is given the state of the program (any type \<open>'s\<close>: whatever the
  process holds when the tool is called) and returns it next to its result, so that
  what the call does to that state can be stated.
\<close>

definition write_to_memory :: "string \<Rightarrow> string \<Rightarrow> 's \<Rightarrow> (exn + string) \<times> 's" where
  "write_to_memory key val st =
     (Inr (''Stored '' @ [CHR 0x27] @ key @ [CHR 0x27] @ '' = '' @ [CHR 0x27] @ val @ [CHR 0x27]
           @ '' in memory.''), st)"

text \<open>
  The registry \<^verbatim>\<open>tools\<close>, by the names of its entries in order, and a call of one of
  them with arguments of its schema.
\<close>

definition tools :: "string list" where
  "tools = [''calculate'', ''get_current_time'', ''check_docker_status'',
            ''search_documentation'', ''write_to_memory'']"

datatype tool_input =
    Calculate_input string
  | Get_current_time_input
  | Check_docker_status_input
  | Search_documentation_input string
  | Write_to_memory_input string string


fun invoke_tool :: "tool_env \<Rightarrow> tool_input \<Rightarrow> 's \<Rightarrow> (exn + string) \<times> 's" where
  "invoke_tool env (Calculate_input expression) st = (calculate env expression, st)"
| "invoke_tool env Get_current_time_input st = (get_current_time env, st)"
| "invoke_tool env Check_docker_status_input st = (check_docker_status env, st)"
| "invoke_tool env (Search_documentation_input query) st = (search_documentation query, st)"
| "invoke_tool env (Write_to_memory_input key val) st = write_to_memory key val st"

section \<open>ask\_ollama\_structured of ollama\_service.py\<close>

text \<open>
  Dictionaries with string keys; \<^verbatim>\<open>d.get(k, default)\<close>. What \<^verbatim>\<open>print\<close> writes is
  collected in a list, one entry for each call, the text followed by its \<^verbatim>\<open>end\<close>.
  A function that prints returns that list next to its value (\<open>Inr\<close>) or the
  exception that leaves it (\<open>Inl\<close>).
\<close>

type_synonym 'v pydict = "string \<rightharpoonup> 'v"

definition dict_get :: "'v pydict \<Rightarrow> string \<Rightarrow> 'v \<Rightarrow> 'v" where
  "dict_get d k dflt = (case d k of Some v \<Rightarrow> v | None \<Rightarrow> dflt)"

definition print_end :: "string \<Rightarrow> string \<Rightarrow> string" where
  "print_end s e = s @ e"

definition print_line :: "string \<Rightarrow> string" where
  "print_line s = print_end s [CHR 0x0A]"

text \<open>
  \<open>ollama_chat\<close> is \<^verbatim>\<open>ollama.Client(host=host).chat(model=, messages=, format=)\<close>: the
  response dictionary, or the exception it raises. \<open>json_loads\<close> is \<^verbatim>\<open>json.loads\<close>: the
  parsed value, or \<open>Inl\<close> with the text of the \<^verbatim>\<open>JSONDecodeError\<close> when the string is
  not valid JSON. The function returns its value or the exception that leaves it, and
  what it printed.
\<close>

definition ask_ollama_structured ::
  "(string \<Rightarrow> string \<Rightarrow> string pydict list \<Rightarrow> string \<Rightarrow> exn + string pydict pydict) \<Rightarrow>
   (string \<Rightarrow> string + 'j) \<Rightarrow>
   string \<Rightarrow> string \<Rightarrow> string option \<Rightarrow> string \<Rightarrow> (exn + 'j) \<times> string list" where
  "ask_ollama_structured ollama_chat json_loads model prompt system_msg host_url =
     (let system_msg' = (case system_msg of
             None \<Rightarrow> ''You are a helpful assistant. Provide your answer in JSON format.''
           | Some m \<Rightarrow> m);
          msgs = [[''role'' \<mapsto> ''system'', ''content'' \<mapsto> system_msg'],
                  [''role'' \<mapsto> ''user'', ''content'' \<mapsto> prompt]]
      in case ollama_chat host_url model msgs ''json'' of
           Inl e \<Rightarrow> (Inl e, [])
         | Inr response_raw \<Rightarrow>
             (let response_content =
                    dict_get (dict_get response_raw ''message'' Map.empty) ''content'' ''{}''
              in case json_loads response_content of
                   Inr parsed \<Rightarrow> (Inr parsed, [])
                 | Inl decode_text \<Rightarrow>
                     (Inl (Exn ''JSONDecodeError'' decode_text),
                      [print_line (''Warning: Model response was not valid JSON. Raw response: ''
                                   @ response_content)])))"

text \<open>
  The block under \<^verbatim>\<open>if __name__ == '__main__'\<close>: one call of
  \<^verbatim>\<open>ask_ollama_structured\<close> inside \<^verbatim>\<open>try\<close>, with \<open>json_dumps\<close> for
  \<^verbatim>\<open>json.dumps(..., indent=2)\<close>. It returns what leaves the block and what it printed.
  The call uses the default host.
\<close>

definition example_model :: string where
  "example_model = ''llama3''"

definition example_prompt :: string where
  "example_prompt = ''Tell me a short story about a brave knight named Sir Reginald, summarizing the plot and listing the main characters.''"

definition example_system_message :: string where
  "example_system_message =
     ''Your response must be in JSON format with keys '' @ [CHR 0x27] @ ''title'' @ [CHR 0x27]
     @ '', '' @ [CHR 0x27] @ ''summary'' @ [CHR 0x27] @ '', and '' @ [CHR 0x27]
     @ ''characters'' @ [CHR 0x27] @ '' (a list of strings).''"

definition service_main ::
  "(string \<Rightarrow> string \<Rightarrow> string pydict list \<Rightarrow> string \<Rightarrow> exn + string pydict pydict) \<Rightarrow>
   (string \<Rightarrow> string + 'j) \<Rightarrow> ('j \<Rightarrow> exn + string) \<Rightarrow> (exn + unit) \<times> string list"
where
  "service_main ollama_chat json_loads json_dumps =
     (let out0 = [print_line (''Attempting to query model: '' @ example_model)] in
      case ask_ollama_structured ollama_chat json_loads example_model example_prompt
             (Some example_system_message) ''http://localhost:11434'' of
        (Inr structured_story, out1) \<Rightarrow>
          (case json_dumps structured_story of
             Inr dumped \<Rightarrow>
               (Inr (), out0 @ out1 @
                  [print_line ([CHR 0x0A] @ ''--- Structured Story Response ---''),
                   print_line dumped])
           | Inl e \<Rightarrow>
               (Inr (), out0 @ out1 @
                  [print_line ([CHR 0x0A] @ ''--- Structured Story Response ---''),
                   print_line (''An error occurred: '' @ exn_text e)]))
      | (Inl e, out1) \<Rightarrow>
          (Inr (), out0 @ out1 @ [print_line (''An error occurred: '' @ exn_text e)]))"

section \<open>OllamaClient of example\_usage.py\<close>

text \<open>
  The library client: each method gives its response or the exception it raises. A
  streaming call gives the chunks it yields and, when the iteration ends by an
  exception, that exception after them.
\<close>

record 'm Client =
  client_list :: "exn + 'm list pydict"
  client_generate :: "string \<Rightarrow> string \<Rightarrow> exn + string pydict"
  client_generate_stream :: "string \<Rightarrow> string \<Rightarrow> string pydict list \<times> exn option"
  client_chat :: "string \<Rightarrow> string pydict list \<Rightarrow> exn + string pydict pydict"
  client_chat_stream ::
    "string \<Rightarrow> string pydict list \<Rightarrow> string pydict pydict list \<times> exn option"

datatype verify = Verify_True | CA_Bundle string

record 'm OllamaClient =
  self_host :: string
  self_client :: "'m Client"
  self_verify_ssl :: verify

definition OllamaClient_init ::
  "string pydict \<Rightarrow> (string \<Rightarrow> 'm Client) \<Rightarrow> string \<Rightarrow> 'm OllamaClient" where
  "OllamaClient_init environ ollama_Client h =
     \<lparr>self_host = h, self_client = ollama_Client h,
      self_verify_ssl = (case environ ''REQUESTS_CA_BUNDLE'' of
                           Some bundle \<Rightarrow> CA_Bundle bundle
                         | None \<Rightarrow> Verify_True)\<rparr>"

text \<open>
  \<open>requests_get\<close> is \<^verbatim>\<open>requests.get(url, verify=, timeout=)\<close>: the status code of the
  response, or the exception raised (no connection, timeout, TLS failure).
\<close>

definition check_connection ::
  "(string \<Rightarrow> verify \<Rightarrow> nat \<Rightarrow> exn + int) \<Rightarrow> 'm OllamaClient \<Rightarrow> (exn + bool) \<times> string list"
where
  "check_connection requests_get self =
     (case requests_get (self_host self @ ''/api/version'') (self_verify_ssl self) 5 of
        Inr status_code \<Rightarrow> (Inr (status_code = 200), [])
      | Inl e \<Rightarrow> (Inr False, [print_line (''Connection error: '' @ exn_text e)]))"

definition list_models :: "'m OllamaClient \<Rightarrow> (exn + 'm list) \<times> string list" where
  "list_models self =
     (case client_list (self_client self) of
        Inr models \<Rightarrow> (Inr (dict_get models ''models'' []), [])
      | Inl e \<Rightarrow> (Inr [], [print_line (''Error listing models: '' @ exn_text e)]))"

definition generate ::
  "'m OllamaClient \<Rightarrow> string \<Rightarrow> string \<Rightarrow> bool \<Rightarrow> (exn + string option) \<times> string list" where
  "generate self model prompt stream =
     (if stream then
        (case client_generate_stream (self_client self) model prompt of
           (chunks, raised) \<Rightarrow>
             (let contents = map (\<lambda>chunk. dict_get chunk ''response'' []) chunks;
                  out = print_end ([CHR 0x0A] @ model @ '':'') '' ''
                        # map (\<lambda>c. print_end c []) contents
              in case raised of
                   None \<Rightarrow> (Inr (Some (concat contents)), out @ [print_line []])
                 | Some e \<Rightarrow>
                     (Inr None,
                      out @ [print_line (''Error generating response: '' @ exn_text e)])))
      else
        (case client_generate (self_client self) model prompt of
           Inr response \<Rightarrow> (Inr (Some (dict_get response ''response'' [])), [])
         | Inl e \<Rightarrow> (Inr None, [print_line (''Error generating response: '' @ exn_text e)])))"

definition chat ::
  "'m OllamaClient \<Rightarrow> string \<Rightarrow> string pydict list \<Rightarrow> bool \<Rightarrow>
   (exn + string option) \<times> string list"
where
  "chat self model msgs stream =
     (if stream then
        (case client_chat_stream (self_client self) model msgs of
           (chunks, raised) \<Rightarrow>
             (let contents =
                    map (\<lambda>chunk. dict_get (dict_get chunk ''message'' Map.empty) ''content'' [])
                      chunks;
                  out = print_end ([CHR 0x0A] @ model @ '':'') '' ''
                        # map (\<lambda>c. print_end c []) contents
              in case raised of
                   None \<Rightarrow> (Inr (Some (concat contents)), out @ [print_line []])
                 | Some e \<Rightarrow>
                     (Inr None, out @ [print_line (''Error in chat: '' @ exn_text e)])))
      else
        (case client_chat (self_client self) model msgs of
           Inr response \<Rightarrow>
             (Inr (Some (dict_get (dict_get response ''message'' Map.empty) ''content'' [])), [])
         | Inl e \<Rightarrow> (Inr None, [print_line (''Error in chat: '' @ exn_text e)])))"

section \<open>The continuation rule in the words of the specification\<close>

text \<open>
  Following the specification's words: the latest message requests a tool when it
  carries a non-empty list of tool calls or, as a fallback, when it is an assistant
  message and one of the five keywords occurs somewhere in its lowercased content.
\<close>

definition spec_requests_tool :: "message \<Rightarrow> bool" where
  "spec_requests_tool m \<longleftrightarrow>
     (\<exists>c cs. tool_calls m = Some (c # cs)) \<or>
     (msg_type m = AI \<and>
      (\<exists>k \<in> {''calculate'', ''time'', ''docker'', ''search'', ''memory''}.
         \<exists>p s. lower (content m) = p @ k @ s))"

section \<open>Example runs\<close>

text \<open>
  A tool node that answers with one tool message, three models (one that always
  announces a calculation, one that answers at once, one whose call always fails) and
  an agent around them with the library's default limit of 25 steps.
\<close>

definition example_tool_node :: "AgentState \<Rightarrow> exn + message list" where
  "example_tool_node state = Inr [\<lparr>msg_type = Tool, content = ''Result: 4'', tool_calls = None\<rparr>]"

definition llm_calculating :: llm where
  "llm_calculating n msgs = Inr (Str ''I will calculate 2 + 2'')"

definition llm_answering :: llm where
  "llm_answering n msgs = Inr (Str ''The answer is 4.'')"

definition llm_refusing :: llm where
  "llm_refusing n msgs = Inl (Exn ''ConnectionError'' ''connection refused'')"

definition example_agent :: "int \<Rightarrow> llm \<Rightarrow> OllamaAgent" where
  "example_agent n l =
     \<lparr>model_name = ''llama3.2'', self_max_iterations = n, llm_with_tools = l,
      tool_node = example_tool_node, recursion_limit = 25\<rparr>"

text \<open>A state as it stands after the first agent turn of a run with budget 3.\<close>

definition example_state :: AgentState where
  "example_state = \<lparr>messages = [HumanMessage ''What time is it?'', AIMessage ''Let me check the TIME''],
         task = ''What time is it?'', result = [], iterations = 1, max_iterations = 3\<rparr>"

text \<open>
  Stand-ins for the outside of the client scripts: a server that is down, a server
  whose answer is not JSON, a parser that accepts the empty object only, a probe that
  finds the version endpoint of the default host, and an evaluator that knows one sum.
\<close>

definition chat_down ::
  "string \<Rightarrow> string \<Rightarrow> string pydict list \<Rightarrow> string \<Rightarrow> exn + string pydict pydict" where
  "chat_down h model msgs fmt = Inl (Exn ''ConnectionError'' ''connection refused'')"

definition chat_prose ::
  "string \<Rightarrow> string \<Rightarrow> string pydict list \<Rightarrow> string \<Rightarrow> exn + string pydict pydict" where
  "chat_prose h model msgs fmt =
     Inr [''message'' \<mapsto> [''role'' \<mapsto> ''assistant'', ''content'' \<mapsto> ''Sure, here it is'']]"

definition loads_empty_object :: "string \<Rightarrow> string + (string \<times> string) list" where
  "loads_empty_object s =
     (if s = ''{}'' then Inr [] else Inl ''Expecting value: line 1 column 1 (char 0)'')"

definition get_version_ok :: "string \<Rightarrow> verify \<Rightarrow> nat \<Rightarrow> exn + int" where
  "get_version_ok url v timeout =
     (if url = ''http://localhost:11434/api/version'' then Inr 200
      else Inl (Exn ''ConnectionError'' ''connection refused''))"

definition client_down :: "string \<Rightarrow> string Client" where
  "client_down h =
     \<lparr>client_list = Inl (Exn ''ConnectionError'' ''connection refused''),
      client_generate = (\<lambda>model prompt. Inl (Exn ''ConnectionError'' ''connection refused'')),
      client_generate_stream =
        (\<lambda>model prompt. ([[''response'' \<mapsto> ''Hel''], [''response'' \<mapsto> ''lo'']],
                          Some (Exn ''ConnectionError'' ''connection reset''))),
      client_chat = (\<lambda>model msgs. Inl (Exn ''ConnectionError'' ''connection refused'')),
      client_chat_stream =
        (\<lambda>model msgs. ([], Some (Exn ''ConnectionError'' ''connection refused'')))\<rparr>"


section \<open>Properties of the agent loop\<close>

lemmas loop_defs =
  graph_invoke_def initial_state_def agent_node_def should_continue_def apply_update_def
  Let_def AIMessage_def HumanMessage_def SystemMessage_def tool_indicators_def
  lower_def lower_char_def ascii_uppercase_def ascii_lowercase_def

lemma str_in_iff: "str_in n h \<longleftrightarrow> (\<exists>p s. h = p @ n @ s)"
proof (induction h)
  case Nil
  then show ?case by auto
next
  case (Cons c cs)
  have "(\<exists>p s. c # cs = p @ n @ s) \<longleftrightarrow> prefix n (c # cs) \<or> (\<exists>p s. cs = p @ n @ s)"
    using sublist_Cons_right[of n c cs] by (simp add: sublist_def)
  with Cons show ?case by simp
qed

lemma agent_node_below:
  assumes "iterations state < self_max_iterations self"
  shows "\<exists>m. agent_node self state calls =
           (Inr (state\<lparr>messages := [m], iterations := iterations state + 1\<rparr>), Suc calls)"
  using assms by (auto simp: agent_node_def Let_def split: sum.splits llm_response.splits)

lemma agent_node_exhausted:
  assumes "self_max_iterations self \<le> iterations state"
  shows "agent_node self state calls =
           (Inr (state\<lparr>result := ''Maximum iterations reached.''\<rparr>), calls)"
  using assms by (auto simp: agent_node_def Let_def)

lemma agent_node_step:
  assumes "iterations state \<le> self_max_iterations self"
  obtains upd calls' where "agent_node self state calls = (Inr upd, calls')"
    and "iterations state \<le> iterations upd" and "iterations upd \<le> self_max_iterations self"
    and "calls \<le> calls'" and "int calls' - int calls = iterations upd - iterations state"
proof (cases "iterations state < self_max_iterations self")
  case True
  from agent_node_below[OF True, of calls] obtain m where
    "agent_node self state calls =
       (Inr (state\<lparr>messages := [m], iterations := iterations state + 1\<rparr>), Suc calls)" ..
  with True that show ?thesis by simp
next
  case False
  with assms have "self_max_iterations self \<le> iterations state" by simp
  from agent_node_exhausted[OF this, of calls] assms that show ?thesis by simp
qed

lemma should_continue_Continue:
  "should_continue self state = Inr Continue \<Longrightarrow> iterations state < self_max_iterations self"
  by (auto simp: should_continue_def Let_def split: list.splits if_splits)

lemma graph_loop_inv:
  assumes "iterations state \<le> self_max_iterations self"
    and "graph_loop self fuel state calls = (r, c, trace)"
  shows "int c - int calls \<le> self_max_iterations self - iterations state
       \<and> calls \<le> c
       \<and> (\<forall>s\<in>set trace. iterations state \<le> iterations s
                         \<and> iterations s \<le> self_max_iterations self)"
  using assms
proof (induction self fuel state calls arbitrary: r c trace rule: graph_loop.induct)
  case (1 self state calls)
  then show ?case by simp
next
  case (2 self fuel state calls)
  from agent_node_step[OF "2.prems"(1), of calls] obtain upd calls' where
    an: "agent_node self state calls = (Inr upd, calls')"
    and up: "iterations state \<le> iterations upd" "iterations upd \<le> self_max_iterations self"
      "calls \<le> calls'" "int calls' - int calls = iterations upd - iterations state"
    by blast
  define state' where "state' = apply_update state upd"
  have its': "iterations state' = iterations upd"
    by (simp add: state'_def apply_update_def)
  show ?case
  proof (cases "should_continue self state'")
    case (Inl e)
    with "2.prems"(2) an up its' show ?thesis by (auto simp: state'_def[symmetric])
  next
    case (Inr rt)
    show ?thesis
    proof (cases rt)
      case End
      with Inr "2.prems"(2) an up its' show ?thesis by (auto simp: state'_def[symmetric])
    next
      case Continue
      show ?thesis
      proof (cases fuel)
        case 0
        with Continue Inr "2.prems"(2) an up its' show ?thesis
          by (auto simp: state'_def[symmetric])
      next
        case (Suc fuel')
        show ?thesis
        proof (cases "tool_node self state'")
          case (Inl e)
          with Suc Continue Inr "2.prems"(2) an up its' show ?thesis
            by (auto simp: state'_def[symmetric])
        next
          case tn: (Inr tool_messages)
          define state'' where "state'' = state'\<lparr>messages := messages state' @ tool_messages\<rparr>"
          obtain r2 c2 trace2 where rec: "graph_loop self fuel' state'' calls' = (r2, c2, trace2)"
            by (cases "graph_loop self fuel' state'' calls'")
          have its'': "iterations state'' = iterations upd"
            using its' by (simp add: state''_def)
          have IH: "int c2 - int calls' \<le> self_max_iterations self - iterations state''
             \<and> calls' \<le> c2
             \<and> (\<forall>s\<in>set trace2. iterations state'' \<le> iterations s
                                \<and> iterations s \<le> self_max_iterations self)"
            using "2.IH"[OF an[symmetric] refl state'_def Inr[unfolded Continue] refl Suc tn
                state''_def _ rec] its'' up
            by simp
          have res: "r = r2 \<and> c = c2 \<and> trace = state' # state'' # trace2"
            using "2.prems"(2) an Inr Continue Suc tn rec
            by (simp add: state'_def[symmetric] state''_def[symmetric])
          from IH res up its' its'' show ?thesis by auto
        qed
      qed
    qed
  qed
qed

text \<open>
  Claim C1. For every budget \<open>self_max_iterations self \<ge> 0\<close>, a run of the graph from
  the initial state of \<^verbatim>\<open>run\<close> makes at most that many model calls, whether it ends
  with a state or with an exception, and the counter \<open>iterations\<close> of every state the
  graph goes through is at most the budget. The agent node calls the model and raises
  the counter by one exactly when the counter is below the budget; once the counter
  has reached the budget it returns without a model call and leaves the counter.
\<close>

theorem agent_loop_within_budget:
  assumes "0 \<le> self_max_iterations self"
    and "graph_invoke self (initial_state self t) = (r, c, trace)"
  shows "int c \<le> self_max_iterations self
       \<and> (\<forall>s\<in>set trace. iterations s \<le> self_max_iterations self)
       \<and> (\<forall>state calls. iterations state < self_max_iterations self \<longrightarrow>
             snd (agent_node self state calls) = Suc calls
           \<and> (\<exists>upd. fst (agent_node self state calls) = Inr upd
                    \<and> iterations upd = iterations state + 1))
       \<and> (\<forall>state calls. self_max_iterations self \<le> iterations state \<longrightarrow>
             snd (agent_node self state calls) = calls
           \<and> (\<exists>upd. fst (agent_node self state calls) = Inr upd
                    \<and> iterations upd = iterations state))"
proof -
  obtain r' c' trace' where
    gl: "graph_loop self (recursion_limit self) (initial_state self t) 0 = (r', c', trace')"
    by (cases "graph_loop self (recursion_limit self) (initial_state self t) 0")
  with assms(2) have eq: "c = c'" "trace = initial_state self t # trace'"
    by (simp_all add: graph_invoke_def)
  have i0: "iterations (initial_state self t) = 0"
    by (simp add: initial_state_def)
  with assms(1) have "iterations (initial_state self t) \<le> self_max_iterations self" by simp
  from graph_loop_inv[OF this gl] eq i0 assms(1)
  have run: "int c \<le> self_max_iterations self
       \<and> (\<forall>s\<in>set trace. iterations s \<le> self_max_iterations self)"
    by auto
  have below: "snd (agent_node self state calls) = Suc calls
           \<and> (\<exists>upd. fst (agent_node self state calls) = Inr upd
                    \<and> iterations upd = iterations state + 1)"
    if "iterations state < self_max_iterations self" for state calls
    using agent_node_below[OF that, of calls] by auto
  have above: "snd (agent_node self state calls) = calls
           \<and> (\<exists>upd. fst (agent_node self state calls) = Inr upd
                    \<and> iterations upd = iterations state)"
    if "self_max_iterations self \<le> iterations state" for state calls
    using agent_node_exhausted[OF that, of calls] by simp
  from run below above show ?thesis by blast
qed

text \<open>
  With a budget of 2 and a model that asks for a tool at every turn, the run makes
  2 model calls and its states carry the counters 0, 1, 1, 2.
\<close>

theorem agent_loop_within_budget_witness:
  "0 \<le> self_max_iterations (example_agent 2 llm_calculating)
   \<and> fst (snd (graph_invoke (example_agent 2 llm_calculating)
                 (initial_state (example_agent 2 llm_calculating) ''What is 2 + 2?''))) = 2
   \<and> map iterations (snd (snd (graph_invoke (example_agent 2 llm_calculating)
                 (initial_state (example_agent 2 llm_calculating) ''What is 2 + 2?'')))) = [0, 1, 1, 2]
   \<and> snd (agent_node (example_agent 2 llm_calculating)
            (initial_state (example_agent 2 llm_calculating) ''What is 2 + 2?'') 0) = 1"
proof -
  let ?self = "example_agent 2 llm_calculating"
  obtain r c trace where gi: "graph_invoke ?self (initial_state ?self ''What is 2 + 2?'') = (r, c, trace)"
    by (cases "graph_invoke ?self (initial_state ?self ''What is 2 + 2?'')")
  have h: "0 \<le> self_max_iterations ?self" by (simp add: example_agent_def)
  have i: "iterations (initial_state ?self ''What is 2 + 2?'') < self_max_iterations ?self"
    by (simp add: example_agent_def initial_state_def)
  have ev: "c = 2 \<and> map iterations trace = [0, 1, 1, 2]"
    using gi
    by (auto simp: loop_defs example_agent_def example_tool_node_def llm_calculating_def
          numeral_nat)
  from agent_loop_within_budget[OF h gi] i
  have "snd (agent_node ?self (initial_state ?self ''What is 2 + 2?'') 0) = Suc 0" by blast
  with h ev gi show ?thesis by simp
qed


lemma spec_requests_tool_code:
  "spec_requests_tool m \<longleftrightarrow>
     (case tool_calls m of Some (_ # _) \<Rightarrow> True | _ \<Rightarrow> False) \<or>
     (msg_type m = AI \<and> list_ex (\<lambda>k. str_in k (lower (content m))) tool_indicators)"
  by (auto simp: spec_requests_tool_def tool_indicators_def str_in_iff
      split: option.splits list.splits)

lemma should_continue_rule:
  assumes "messages state \<noteq> []"
  shows "should_continue self state =
           Inr (if iterations state < self_max_iterations self
                   \<and> spec_requests_tool (last (messages state))
                then Continue else End)"
  using assms
  by (cases "messages state")
     (auto simp: should_continue_def Let_def spec_requests_tool_code
           split: option.splits list.splits)

text \<open>
  Claim C2. On a state with at least one message, \<^verbatim>\<open>_should_continue\<close> answers
  \<^verbatim>\<open>continue\<close> exactly when the counter is below the budget and the last message
  requests a tool in the sense of \<open>spec_requests_tool\<close> (a non-empty \<open>tool_calls\<close>, or an
  assistant message whose lowercased content contains one of the five keywords), and
  \<^verbatim>\<open>end\<close> in every other case. In the graph, after an agent turn that led to this
  state, the first answer runs the tool node and the loop goes on from its messages,
  the second ends the run with this state.
\<close>

theorem continuation_rule:
  assumes "messages state \<noteq> []"
  shows "should_continue self state =
           Inr (if iterations state < self_max_iterations self
                   \<and> spec_requests_tool (last (messages state))
                then Continue else End)
       \<and> (\<forall>st0 calls upd calls' fuel.
             agent_node self st0 calls = (Inr upd, calls') \<and> state = apply_update st0 upd \<longrightarrow>
             graph_loop self (Suc (Suc fuel)) st0 calls =
               (if iterations state < self_max_iterations self
                   \<and> spec_requests_tool (last (messages state))
                then (case tool_node self state of
                        Inl e \<Rightarrow> (Inl e, calls', [state])
                      | Inr tool_messages \<Rightarrow>
                          (case graph_loop self fuel
                                  (state\<lparr>messages := messages state @ tool_messages\<rparr>) calls' of
                             (r, c, trace) \<Rightarrow>
                               (r, c, state # state\<lparr>messages := messages state @ tool_messages\<rparr>
                                      # trace)))
                else (Inr state, calls', [state])))"
proof -
  have sc: "should_continue self state =
           Inr (if iterations state < self_max_iterations self
                   \<and> spec_requests_tool (last (messages state))
                then Continue else End)"
    using should_continue_rule[OF assms] .
  have "graph_loop self (Suc (Suc fuel)) st0 calls =
               (if iterations state < self_max_iterations self
                   \<and> spec_requests_tool (last (messages state))
                then (case tool_node self state of
                        Inl e \<Rightarrow> (Inl e, calls', [state])
                      | Inr tool_messages \<Rightarrow>
                          (case graph_loop self fuel
                                  (state\<lparr>messages := messages state @ tool_messages\<rparr>) calls' of
                             (r, c, trace) \<Rightarrow>
                               (r, c, state # state\<lparr>messages := messages state @ tool_messages\<rparr>
                                      # trace)))
                else (Inr state, calls', [state]))"
    if "agent_node self st0 calls = (Inr upd, calls')" "state = apply_update st0 upd"
    for st0 calls upd calls' fuel
    using that sc by (simp add: Let_def split: sum.splits prod.splits)
  with sc show ?thesis by blast
qed

text \<open>
  An assistant message that mentions the time, in capitals, below the budget: the loop
  continues.
\<close>

theorem continuation_rule_witness:
  "messages example_state \<noteq> []
   \<and> iterations example_state < self_max_iterations (example_agent 3 llm_answering)
   \<and> lower (content (last (messages example_state))) = ''let me check the '' @ ''time'' @ []
   \<and> should_continue (example_agent 3 llm_answering) example_state = Inr Continue"
proof -
  have ne: "messages example_state \<noteq> []" by (simp add: example_state_def)
  have low: "lower (content (last (messages example_state))) = ''let me check the '' @ ''time'' @ []"
    by (simp add: example_state_def loop_defs)
  have ai: "msg_type (last (messages example_state)) = AI"
    by (simp add: example_state_def AIMessage_def)
  have "\<exists>p s. lower (content (last (messages example_state))) = p @ ''time'' @ s"
    using low by blast
  with ai have rq: "spec_requests_tool (last (messages example_state))"
    by (simp add: spec_requests_tool_def)
  have it: "iterations example_state < self_max_iterations (example_agent 3 llm_answering)"
    by (simp add: example_state_def example_agent_def)
  from continuation_rule[OF ne, of "example_agent 3 llm_answering"] rq it
  have "should_continue (example_agent 3 llm_answering) example_state = Inr Continue" by simp
  with ne it low show ?thesis by blast
qed

lemma graph_loop_first_turn_end:
  assumes "agent_node self state calls = (Inr upd, calls')"
    and "should_continue self (apply_update state upd) = Inr End"
  shows "graph_loop self (Suc fuel) state calls =
           (Inr (apply_update state upd), calls', [apply_update state upd])"
  using assms by (simp add: Let_def)

text \<open>
  Claim C3. Let the budget be positive, so that the first turn calls the model, and let
  the graph be allowed at least one step. If the model's answer to that call, as the
  message the node makes of it, does not request a tool (in particular when it has no
  tool calls and none of the keywords in its content), the run ends after this one
  turn: one model call, the states of the run are the initial state and the final one,
  the final state holds the task and the answer, and \<^verbatim>\<open>run\<close> returns the answer.
\<close>

theorem no_indicator_one_turn:
  assumes "0 < self_max_iterations self"
    and "0 < recursion_limit self"
    and "llm_with_tools self 0 [agent_system_message, HumanMessage t] = Inr response"
    and "ai_message = (case response of Str s \<Rightarrow> AIMessage s | Obj m \<Rightarrow> m)"
    and "\<not> spec_requests_tool ai_message"
    and "final = (initial_state self t)\<lparr>messages := [HumanMessage t, ai_message], iterations := 1\<rparr>"
  shows "graph_invoke self (initial_state self t) = (Inr final, 1, [initial_state self t, final])
       \<and> run self t = Inr (content ai_message)"
proof -
  let ?init = "initial_state self t"
  let ?upd = "?init\<lparr>messages := [ai_message], iterations := 1\<rparr>"
  have an: "agent_node self ?init 0 = (Inr ?upd, Suc 0)"
    using assms(1,3,4) by (simp add: agent_node_def initial_state_def Let_def)
  have fin: "apply_update ?init ?upd = final"
    using assms(6) by (simp add: apply_update_def initial_state_def)
  have "messages final \<noteq> []" using assms(6) by simp
  from should_continue_rule[OF this, of self] assms(5,6)
  have "should_continue self final = Inr End" by simp
  with fin have "should_continue self (apply_update ?init ?upd) = Inr End" by simp
  from graph_loop_first_turn_end[OF an this] fin
  have step: "graph_loop self (Suc fuel) ?init 0 = (Inr final, Suc 0, [final])" for fuel
    by simp
  from assms(2) obtain fuel where "recursion_limit self = Suc fuel"
    by (cases "recursion_limit self") auto
  with step[of fuel]
  have gi: "graph_invoke self ?init = (Inr final, 1, [?init, final])"
    by (simp add: graph_invoke_def)
  then have "run self t = Inr (content ai_message)"
    using assms(6) by (simp add: run_def)
  with gi show ?thesis by simp
qed

text \<open>
  A budget of 3 and a model that answers at once: one call, and the answer is returned.
\<close>

theorem no_indicator_one_turn_witness:
  "0 < self_max_iterations (example_agent 3 llm_answering)
   \<and> 0 < recursion_limit (example_agent 3 llm_answering)
   \<and> llm_with_tools (example_agent 3 llm_answering) 0
        [agent_system_message, HumanMessage ''What is 2 + 2?''] = Inr (Str ''The answer is 4.'')
   \<and> \<not> spec_requests_tool (AIMessage ''The answer is 4.'')
   \<and> fst (snd (graph_invoke (example_agent 3 llm_answering)
                  (initial_state (example_agent 3 llm_answering) ''What is 2 + 2?''))) = 1
   \<and> run (example_agent 3 llm_answering) ''What is 2 + 2?'' = Inr ''The answer is 4.''"
proof -
  let ?self = "example_agent 3 llm_answering"
  have h1: "0 < self_max_iterations ?self" by (simp add: example_agent_def)
  have h2: "0 < recursion_limit ?self" by (simp add: example_agent_def)
  have h3: "llm_with_tools ?self 0 [agent_system_message, HumanMessage ''What is 2 + 2?'']
              = Inr (Str ''The answer is 4.'')"
    by (simp add: example_agent_def llm_answering_def)
  have h4: "AIMessage ''The answer is 4.''
              = (case Str ''The answer is 4.'' of Str s \<Rightarrow> AIMessage s | Obj m \<Rightarrow> m)"
    by simp
  have h5: "\<not> spec_requests_tool (AIMessage ''The answer is 4.'')"
    by (simp add: spec_requests_tool_code loop_defs)
  from no_indicator_one_turn[OF h1 h2 h3 h4 h5 refl] h1 h2 h3 h5
  show ?thesis by (simp add: AIMessage_def)
qed

text \<open>
  Claim C4, as amended. When the model call of a turn below the budget raises, the
  agent node raises nothing: it returns the update that holds the assistant message
  \<^verbatim>\<open>Error: <text of the exception>\<close> and the counter raised by one, and counts one
  model call. The graph appends that message to the history. The loop then follows
  the ordinary continuation rule on this message: it goes on to the tool node only if
  the counter is still below the budget and the lowercased error text contains one of
  the keywords; in every other case the run ends normally with the error message as
  the last message.
\<close>

theorem model_failure_becomes_message:
  assumes "iterations state < self_max_iterations self"
    and "llm_with_tools self calls (agent_system_message # messages state) = Inl e"
    and "upd = state\<lparr>messages := [AIMessage (''Error: '' @ exn_text e)],
                      iterations := iterations state + 1\<rparr>"
    and "state' = apply_update state upd"
  shows "agent_node self state calls = (Inr upd, Suc calls)
       \<and> messages state' = messages state @ [AIMessage (''Error: '' @ exn_text e)]
       \<and> iterations state' = iterations state + 1
       \<and> should_continue self state' =
           Inr (if iterations state + 1 < self_max_iterations self
                   \<and> (\<exists>k \<in> {''calculate'', ''time'', ''docker'', ''search'', ''memory''}.
                         \<exists>p s. lower (''Error: '' @ exn_text e) = p @ k @ s)
                then Continue else End)
       \<and> (\<forall>fuel. should_continue self state' = Inr End \<longrightarrow>
             graph_loop self (Suc fuel) state calls = (Inr state', Suc calls, [state']))"
proof -
  have an: "agent_node self state calls = (Inr upd, Suc calls)"
    using assms(1,2,3) by (simp add: agent_node_def Let_def)
  have ms: "messages state' = messages state @ [AIMessage (''Error: '' @ exn_text e)]"
    and it: "iterations state' = iterations state + 1"
    using assms(3,4) by (simp_all add: apply_update_def)
  have rq: "spec_requests_tool (AIMessage (''Error: '' @ exn_text e)) \<longleftrightarrow>
          (\<exists>k \<in> {''calculate'', ''time'', ''docker'', ''search'', ''memory''}.
              \<exists>p s. lower (''Error: '' @ exn_text e) = p @ k @ s)"
    by (simp add: spec_requests_tool_def AIMessage_def)
  have "messages state' \<noteq> []" using ms by simp
  from should_continue_rule[OF this, of self] ms it rq
  have sc: "should_continue self state' =
           Inr (if iterations state + 1 < self_max_iterations self
                   \<and> (\<exists>k \<in> {''calculate'', ''time'', ''docker'', ''search'', ''memory''}.
                         \<exists>p s. lower (''Error: '' @ exn_text e) = p @ k @ s)
                then Continue else End)"
    by simp
  have "graph_loop self (Suc fuel) state calls = (Inr state', Suc calls, [state'])"
    if "should_continue self state' = Inr End" for fuel
    using graph_loop_first_turn_end[OF an, of fuel] that assms(4) by simp
  with an ms it sc show ?thesis by blast
qed

text \<open>
  The first call of a run with budget 5 fails with \<^verbatim>\<open>connection refused\<close>: the node
  returns the error message, and the route is \<^verbatim>\<open>end\<close>.
\<close>

theorem model_failure_becomes_message_witness:
  "iterations (initial_state (example_agent 5 llm_refusing) ''hello'')
     < self_max_iterations (example_agent 5 llm_refusing)
   \<and> llm_with_tools (example_agent 5 llm_refusing) 0
        (agent_system_message # messages (initial_state (example_agent 5 llm_refusing) ''hello''))
       = Inl (Exn ''ConnectionError'' ''connection refused'')
   \<and> fst (agent_node (example_agent 5 llm_refusing)
            (initial_state (example_agent 5 llm_refusing) ''hello'') 0)
       = Inr ((initial_state (example_agent 5 llm_refusing) ''hello'')
               \<lparr>messages := [AIMessage ''Error: connection refused''], iterations := 1\<rparr>)
   \<and> snd (agent_node (example_agent 5 llm_refusing)
            (initial_state (example_agent 5 llm_refusing) ''hello'') 0) = 1"
proof -
  let ?self = "example_agent 5 llm_refusing"
  let ?init = "initial_state ?self ''hello''"
  have h1: "iterations ?init < self_max_iterations ?self"
    by (simp add: initial_state_def example_agent_def)
  have h2: "llm_with_tools ?self 0 (agent_system_message # messages ?init)
              = Inl (Exn ''ConnectionError'' ''connection refused'')"
    by (simp add: example_agent_def llm_refusing_def)
  from model_failure_becomes_message[OF h1 h2 refl refl]
  have "agent_node ?self ?init 0 =
          (Inr (?init\<lparr>messages := [AIMessage (''Error: '' @ ''connection refused'')],
                      iterations := iterations ?init + 1\<rparr>), Suc 0)"
    by simp
  moreover have "iterations ?init = 0" by (simp add: initial_state_def)
  ultimately show ?thesis using h1 h2 by simp
qed

text \<open>
  Against claim C4 as it was stated: the first model call of a run with budget 5 raises
  \<^verbatim>\<open>connection refused\<close>; the run ends after that one call, with the counter at 1, and
  does not go on up to the budget.
\<close>

theorem model_failure_counterexample:
  "llm_with_tools (example_agent 5 llm_refusing) 0
      [agent_system_message, HumanMessage ''hello'']
     = Inl (Exn ''ConnectionError'' ''connection refused'')
   \<and> self_max_iterations (example_agent 5 llm_refusing) = 5
   \<and> graph_invoke (example_agent 5 llm_refusing)
        (initial_state (example_agent 5 llm_refusing) ''hello'')
     = (Inr \<lparr>messages = [HumanMessage ''hello'', AIMessage ''Error: connection refused''],
             task = ''hello'', result = [], iterations = 1, max_iterations = 5\<rparr>,
        1,
        [\<lparr>messages = [HumanMessage ''hello''],
          task = ''hello'', result = [], iterations = 0, max_iterations = 5\<rparr>,
         \<lparr>messages = [HumanMessage ''hello'', AIMessage ''Error: connection refused''],
          task = ''hello'', result = [], iterations = 1, max_iterations = 5\<rparr>])"
  by (simp add: loop_defs example_agent_def example_tool_node_def llm_refusing_def numeral_nat)

lemma result_kept_below_budget:
  assumes "iterations state < self_max_iterations self"
    and "graph_loop self fuel state calls = (r, c, trace)"
  shows "(\<forall>s\<in>set trace. result s = result state) \<and> (\<forall>s. r = Inr s \<longrightarrow> result s = result state)"
  using assms
proof (induction self fuel state calls arbitrary: r c trace rule: graph_loop.induct)
  case (1 self state calls)
  then show ?case by auto
next
  case (2 self fuel state calls)
  from agent_node_below[OF "2.prems"(1), of calls] obtain m where
    an: "agent_node self state calls =
           (Inr (state\<lparr>messages := [m], iterations := iterations state + 1\<rparr>), Suc calls)" ..
  define state' where
    "state' = apply_update state (state\<lparr>messages := [m], iterations := iterations state + 1\<rparr>)"
  have res': "result state' = result state"
    by (simp add: state'_def apply_update_def)
  show ?case
  proof (cases "should_continue self state'")
    case (Inl e)
    with "2.prems"(2) an res' show ?thesis by (auto simp: state'_def[symmetric])
  next
    case (Inr rt)
    show ?thesis
    proof (cases rt)
      case End
      with Inr "2.prems"(2) an res' show ?thesis by (auto simp: state'_def[symmetric])
    next
      case Continue
      with Inr have below: "iterations state' < self_max_iterations self"
        using should_continue_Continue by blast
      show ?thesis
      proof (cases fuel)
        case 0
        with Continue Inr "2.prems"(2) an res' show ?thesis
          by (auto simp: state'_def[symmetric])
      next
        case (Suc fuel')
        show ?thesis
        proof (cases "tool_node self state'")
          case (Inl e)
          with Suc Continue Inr "2.prems"(2) an res' show ?thesis
            by (auto simp: state'_def[symmetric])
        next
          case tn: (Inr tool_messages)
          define state'' where "state'' = state'\<lparr>messages := messages state' @ tool_messages\<rparr>"
          obtain r2 c2 trace2 where
            rec: "graph_loop self fuel' state'' (Suc calls) = (r2, c2, trace2)"
            by (cases "graph_loop self fuel' state'' (Suc calls)")
          have st'': "iterations state'' < self_max_iterations self" "result state'' = result state"
            using below res' by (simp_all add: state''_def)
          have IH: "(\<forall>s\<in>set trace2. result s = result state'')
                  \<and> (\<forall>s. r2 = Inr s \<longrightarrow> result s = result state'')"
            using "2.IH"[OF an[symmetric] refl state'_def Inr[unfolded Continue] refl Suc tn
                state''_def st''(1) rec] .
          have res: "r = r2 \<and> c = c2 \<and> trace = state' # state'' # trace2"
            using "2.prems"(2) an Inr Continue Suc tn rec
            by (simp add: state'_def[symmetric] state''_def[symmetric])
          from IH res res' st'' show ?thesis by auto
        qed
      qed
    qed
  qed
qed

lemma result_never_set_with_budget:
  assumes "0 < self_max_iterations self"
    and "graph_invoke self (initial_state self t) = (r, c, trace)"
  shows "(\<forall>s\<in>set trace. result s = []) \<and> (\<forall>s. r = Inr s \<longrightarrow> result s = [])"
proof -
  obtain r' c' trace' where
    gl: "graph_loop self (recursion_limit self) (initial_state self t) 0 = (r', c', trace')"
    by (cases "graph_loop self (recursion_limit self) (initial_state self t) 0")
  with assms(2) have eq: "r = r'" "trace = initial_state self t # trace'"
    by (simp_all add: graph_invoke_def)
  have "iterations (initial_state self t) < self_max_iterations self"
    using assms(1) by (simp add: initial_state_def)
  from result_kept_below_budget[OF this gl] eq show ?thesis
    by (simp add: initial_state_def)
qed

lemma run_returns_task_without_budget:
  assumes "self_max_iterations self \<le> 0" and "0 < recursion_limit self"
  shows "graph_invoke self (initial_state self t) =
           (Inr ((initial_state self t)\<lparr>messages := [HumanMessage t, HumanMessage t],
                                        result := ''Maximum iterations reached.''\<rparr>), 0,
            [initial_state self t,
             (initial_state self t)\<lparr>messages := [HumanMessage t, HumanMessage t],
                                   result := ''Maximum iterations reached.''\<rparr>])"
    and "run self t = Inr t"
proof -
  let ?init = "initial_state self t"
  let ?final = "?init\<lparr>messages := [HumanMessage t, HumanMessage t],
                       result := ''Maximum iterations reached.''\<rparr>"
  have "self_max_iterations self \<le> iterations ?init"
    using assms(1) by (simp add: initial_state_def)
  from agent_node_exhausted[OF this, of 0]
  have an: "agent_node self ?init 0 = (Inr (?init\<lparr>result := ''Maximum iterations reached.''\<rparr>), 0)" .
  have fin: "apply_update ?init (?init\<lparr>result := ''Maximum iterations reached.''\<rparr>) = ?final"
    by (simp add: apply_update_def initial_state_def)
  have "should_continue self ?final = Inr End"
    using assms(1) by (simp add: should_continue_def initial_state_def)
  with fin have "should_continue self
      (apply_update ?init (?init\<lparr>result := ''Maximum iterations reached.''\<rparr>)) = Inr End"
    by simp
  from graph_loop_first_turn_end[OF an this] fin
  have step: "graph_loop self (Suc fuel) ?init 0 = (Inr ?final, 0, [?final])" for fuel
    by simp
  from assms(2) obtain fuel where "recursion_limit self = Suc fuel"
    by (cases "recursion_limit self") auto
  with step[of fuel]
  show gi: "graph_invoke self ?init = (Inr ?final, 0, [?init, ?final])"
    by (simp add: graph_invoke_def)
  then show "run self t = Inr t"
    by (simp add: run_def HumanMessage_def)
qed

text \<open>
  Claim C5, on the code: with a budget of 1 and a model whose answer asks for a
  calculation, the limit is reached after the first call. The run ends with the field
  \<open>result\<close> still empty, and \<^verbatim>\<open>run\<close> returns the model's answer: the text
  \<^verbatim>\<open>Maximum iterations reached.\<close> appears nowhere.
\<close>

theorem budget_exhaustion_not_reported:
  "graph_invoke (example_agent 1 llm_calculating)
        (initial_state (example_agent 1 llm_calculating) ''What is 2 + 2?'')
     = (Inr \<lparr>messages = [HumanMessage ''What is 2 + 2?'', AIMessage ''I will calculate 2 + 2''],
             task = ''What is 2 + 2?'', result = [], iterations = 1, max_iterations = 1\<rparr>,
        1,
        [\<lparr>messages = [HumanMessage ''What is 2 + 2?''],
          task = ''What is 2 + 2?'', result = [], iterations = 0, max_iterations = 1\<rparr>,
         \<lparr>messages = [HumanMessage ''What is 2 + 2?'', AIMessage ''I will calculate 2 + 2''],
          task = ''What is 2 + 2?'', result = [], iterations = 1, max_iterations = 1\<rparr>])
   \<and> run (example_agent 1 llm_calculating) ''What is 2 + 2?'' = Inr ''I will calculate 2 + 2''"
  by (simp add: run_def loop_defs example_agent_def example_tool_node_def llm_calculating_def
        numeral_nat)

section \<open>Properties of the client scripts\<close>



text \<open>
  Claim C7. \<^verbatim>\<open>check_connection\<close> always returns a boolean and raises nothing: it returns
  \<^verbatim>\<open>True\<close> exactly when the request for \<^verbatim>\<open>/api/version\<close> succeeds with status 200, and
  when the request raises (the endpoint cannot be reached, or any other exception) it
  prints the error and returns \<^verbatim>\<open>False\<close>.
\<close>

theorem check_connection_boolean:
  "(\<exists>b. fst (check_connection requests_get self) = Inr b)
   \<and> (fst (check_connection requests_get self) = Inr True
        \<longleftrightarrow> requests_get (self_host self @ ''/api/version'') (self_verify_ssl self) 5 = Inr 200)
   \<and> (\<forall>e. requests_get (self_host self @ ''/api/version'') (self_verify_ssl self) 5 = Inl e \<longrightarrow>
         check_connection requests_get self
           = (Inr False, [print_line (''Connection error: '' @ exn_text e)]))"
  by (cases "requests_get (self_host self @ ''/api/version'') (self_verify_ssl self) 5")
     (auto simp: check_connection_def)

text \<open>
  A client for a host where nothing listens: the probe raises, and the answer is
  \<^verbatim>\<open>False\<close>.
\<close>

theorem check_connection_boolean_witness:
  "get_version_ok
      (self_host (OllamaClient_init Map.empty client_down ''http://localhost:9'') @ ''/api/version'')
      (self_verify_ssl (OllamaClient_init Map.empty client_down ''http://localhost:9'')) 5
     = Inl (Exn ''ConnectionError'' ''connection refused'')
   \<and> check_connection get_version_ok (OllamaClient_init Map.empty client_down ''http://localhost:9'')
     = (Inr False, [print_line (''Connection error: '' @ ''connection refused'')])"
proof -
  let ?self = "OllamaClient_init Map.empty client_down ''http://localhost:9''"
  have h: "get_version_ok (self_host ?self @ ''/api/version'') (self_verify_ssl ?self) 5
             = Inl (Exn ''ConnectionError'' ''connection refused'')"
    by (simp add: get_version_ok_def OllamaClient_init_def)
  from check_connection_boolean[of get_version_ok ?self] h
  have "check_connection get_version_ok ?self
          = (Inr False, [print_line (''Connection error: ''
                @ exn_text (Exn ''ConnectionError'' ''connection refused''))])"
    by blast
  with h show ?thesis by simp
qed

text \<open>
  Claim C8, as amended. A failure during a call of \<^verbatim>\<open>OllamaClient\<close> is caught where
  the call is made, printed, and turned into an empty result; nothing is raised:
  \<^verbatim>\<open>list_models\<close> returns the empty list, and \<^verbatim>\<open>generate\<close> and \<^verbatim>\<open>chat\<close> return
  \<^verbatim>\<open>None\<close>, with or without streaming (also when the stream fails after some chunks).
  \<^verbatim>\<open>check_docker_status\<close> turns a non-zero exit and an exception of the subprocess into
  an inline string. \<^verbatim>\<open>ask_ollama_structured\<close> does not convert: a failure of its chat
  call leaves it uncaught, and malformed JSON is printed as a warning and raised
  again. Both reach the main block of the script, which catches them, prints
  \<^verbatim>\<open>An error occurred: ...\<close> and ends normally.
\<close>

theorem client_failures_contained:
  "(\<exists>ms. fst (list_models self) = Inr ms)
   \<and> (\<exists>g. fst (generate self model prompt stream) = Inr g)
   \<and> (\<exists>c. fst (chat self model msgs stream) = Inr c)
   \<and> (\<forall>e. client_list (self_client self) = Inl e \<longrightarrow>
          list_models self = (Inr [], [print_line (''Error listing models: '' @ exn_text e)]))
   \<and> (\<forall>e. client_generate (self_client self) model prompt = Inl e \<longrightarrow>
          generate self model prompt False
            = (Inr None, [print_line (''Error generating response: '' @ exn_text e)]))
   \<and> (\<forall>chunks e. client_generate_stream (self_client self) model prompt = (chunks, Some e) \<longrightarrow>
          fst (generate self model prompt True) = Inr None
        \<and> last (snd (generate self model prompt True))
            = print_line (''Error generating response: '' @ exn_text e))
   \<and> (\<forall>e. client_chat (self_client self) model msgs = Inl e \<longrightarrow>
          chat self model msgs False = (Inr None, [print_line (''Error in chat: '' @ exn_text e)]))
   \<and> (\<forall>chunks e. client_chat_stream (self_client self) model msgs = (chunks, Some e) \<longrightarrow>
          fst (chat self model msgs True) = Inr None
        \<and> last (snd (chat self model msgs True)) = print_line (''Error in chat: '' @ exn_text e))
   \<and> (\<forall>res. docker_ps env = Inr res \<and> returncode res \<noteq> 0 \<longrightarrow>
          check_docker_status env = Inr ''Docker is not running or not accessible.'')
   \<and> (\<forall>e. docker_ps env = Inl e \<longrightarrow>
          check_docker_status env = Inr (''Cannot check Docker status: '' @ exn_text e))
   \<and> (\<forall>e. (\<forall>msgs'. ollama_chat host_url model msgs' ''json'' = Inl e) \<longrightarrow>
          ask_ollama_structured ollama_chat json_loads model prompt system_msg host_url
            = (Inl e, []))
   \<and> (\<forall>raw txt. (\<forall>msgs'. ollama_chat host_url model msgs' ''json'' = Inr raw)
            \<and> json_loads (dict_get (dict_get raw ''message'' Map.empty) ''content'' ''{}'') = Inl txt
          \<longrightarrow> ask_ollama_structured ollama_chat json_loads model prompt system_msg host_url
            = (Inl (Exn ''JSONDecodeError'' txt),
               [print_line (''Warning: Model response was not valid JSON. Raw response: ''
                            @ dict_get (dict_get raw ''message'' Map.empty) ''content'' ''{}'')]))
   \<and> (\<forall>e out. ask_ollama_structured ollama_chat json_loads example_model example_prompt
                 (Some example_system_message) ''http://localhost:11434'' = (Inl e, out) \<longrightarrow>
          service_main ollama_chat json_loads json_dumps
            = (Inr (), print_line (''Attempting to query model: '' @ example_model) # out
                       @ [print_line (''An error occurred: '' @ exn_text e)]))"
proof -
  have j: "\<forall>raw txt. (\<forall>msgs'. ollama_chat host_url model msgs' ''json'' = Inr raw)
            \<and> json_loads (dict_get (dict_get raw ''message'' Map.empty) ''content'' ''{}'') = Inl txt
          \<longrightarrow> ask_ollama_structured ollama_chat json_loads model prompt system_msg host_url
            = (Inl (Exn ''JSONDecodeError'' txt),
               [print_line (''Warning: Model response was not valid JSON. Raw response: ''
                            @ dict_get (dict_get raw ''message'' Map.empty) ''content'' ''{}'')])"
    by (simp add: ask_ollama_structured_def Let_def)
  have lm: "(\<exists>ms. fst (list_models self) = Inr ms)
      \<and> (\<forall>e. client_list (self_client self) = Inl e \<longrightarrow>
          list_models self = (Inr [], [print_line (''Error listing models: '' @ exn_text e)]))"
    by (cases "client_list (self_client self)") (auto simp: list_models_def)
  have g1: "\<exists>g. fst (generate self model prompt stream) = Inr g"
    by (auto simp: generate_def Let_def split: sum.splits prod.splits option.splits)
  have g2: "\<forall>e. client_generate (self_client self) model prompt = Inl e \<longrightarrow>
          generate self model prompt False
            = (Inr None, [print_line (''Error generating response: '' @ exn_text e)])"
    by (simp add: generate_def)
  have g3: "\<forall>chunks e. client_generate_stream (self_client self) model prompt = (chunks, Some e) \<longrightarrow>
          fst (generate self model prompt True) = Inr None
        \<and> last (snd (generate self model prompt True))
            = print_line (''Error generating response: '' @ exn_text e)"
    by (simp add: generate_def Let_def)
  have c1: "\<exists>c. fst (chat self model msgs stream) = Inr c"
    by (auto simp: chat_def Let_def split: sum.splits prod.splits option.splits)
  have c2: "\<forall>e. client_chat (self_client self) model msgs = Inl e \<longrightarrow>
          chat self model msgs False = (Inr None, [print_line (''Error in chat: '' @ exn_text e)])"
    by (simp add: chat_def)
  have c3: "\<forall>chunks e. client_chat_stream (self_client self) model msgs = (chunks, Some e) \<longrightarrow>
          fst (chat self model msgs True) = Inr None
        \<and> last (snd (chat self model msgs True)) = print_line (''Error in chat: '' @ exn_text e)"
    by (simp add: chat_def Let_def)
  have d: "(\<forall>res. docker_ps env = Inr res \<and> returncode res \<noteq> 0 \<longrightarrow>
          check_docker_status env = Inr ''Docker is not running or not accessible.'')
     \<and> (\<forall>e. docker_ps env = Inl e \<longrightarrow>
          check_docker_status env = Inr (''Cannot check Docker status: '' @ exn_text e))"
    by (simp add: check_docker_status_def)
  have a: "\<forall>e. (\<forall>msgs'. ollama_chat host_url model msgs' ''json'' = Inl e) \<longrightarrow>
          ask_ollama_structured ollama_chat json_loads model prompt system_msg host_url
            = (Inl e, [])"
    by (simp add: ask_ollama_structured_def Let_def)
  have m: "\<forall>e out. ask_ollama_structured ollama_chat json_loads example_model example_prompt
                 (Some example_system_message) ''http://localhost:11434'' = (Inl e, out) \<longrightarrow>
          service_main ollama_chat json_loads json_dumps
            = (Inr (), print_line (''Attempting to query model: '' @ example_model) # out
                       @ [print_line (''An error occurred: '' @ exn_text e)])"
    by (simp add: service_main_def Let_def)
  from lm g1 g2 g3 c1 c2 c3 d a j m show ?thesis by blast
qed

text \<open>
  A server that is down: \<^verbatim>\<open>list_models\<close> gives the empty list and \<^verbatim>\<open>generate\<close> gives
  \<^verbatim>\<open>None\<close> after the chunks it had printed, each with its error line;
  \<^verbatim>\<open>ask_ollama_structured\<close> raises, and the main block prints the error.
\<close>

theorem client_failures_contained_witness:
  "client_list (self_client (OllamaClient_init Map.empty client_down ''http://localhost:9''))
     = Inl (Exn ''ConnectionError'' ''connection refused'')
   \<and> list_models (OllamaClient_init Map.empty client_down ''http://localhost:9'')
     = (Inr [], [print_line (''Error listing models: '' @ ''connection refused'')])
   \<and> client_generate_stream
        (self_client (OllamaClient_init Map.empty client_down ''http://localhost:9'')) ''llama3'' ''Hi''
     = ([[''response'' \<mapsto> ''Hel''], [''response'' \<mapsto> ''lo'']],
        Some (Exn ''ConnectionError'' ''connection reset''))
   \<and> fst (generate (OllamaClient_init Map.empty client_down ''http://localhost:9'')
            ''llama3'' ''Hi'' True) = Inr None
   \<and> ask_ollama_structured chat_down loads_empty_object example_model example_prompt
        (Some example_system_message) ''http://localhost:11434''
     = (Inl (Exn ''ConnectionError'' ''connection refused''), [])
   \<and> service_main chat_down loads_empty_object (\<lambda>j. Inr ''{}'')
     = (Inr (), [print_line (''Attempting to query model: '' @ example_model),
                 print_line (''An error occurred: '' @ ''connection refused'')])"
proof -
  let ?self = "OllamaClient_init Map.empty client_down ''http://localhost:9''"
  have h1: "client_list (self_client ?self) = Inl (Exn ''ConnectionError'' ''connection refused'')"
    by (simp add: OllamaClient_init_def client_down_def)
  have h2: "client_generate_stream (self_client ?self) ''llama3'' ''Hi''
     = ([[''response'' \<mapsto> ''Hel''], [''response'' \<mapsto> ''lo'']],
        Some (Exn ''ConnectionError'' ''connection reset''))"
    by (simp add: OllamaClient_init_def client_down_def)
  have h3: "\<forall>msgs'. chat_down ''http://localhost:11434'' example_model msgs' ''json''
              = Inl (Exn ''ConnectionError'' ''connection refused'')"
    by (simp add: chat_down_def)
  note inst1 = client_failures_contained[where self = "?self" and model = example_model
      and prompt = example_prompt and ollama_chat = chat_down
      and host_url = "''http://localhost:11434''" and json_loads = loads_empty_object
      and system_msg = "Some example_system_message" and json_dumps = "\<lambda>j. Inr ''{}''"]
  note inst2 = client_failures_contained[where self = "?self" and model = "''llama3''"
      and prompt = "''Hi''"]
  from inst1 h1 have r1: "list_models ?self
     = (Inr [], [print_line (''Error listing models: ''
                  @ exn_text (Exn ''ConnectionError'' ''connection refused''))])"
    by blast
  from inst2 h2 have r2: "fst (generate ?self ''llama3'' ''Hi'' True) = Inr None"
    by blast
  from inst1 h3 have r3: "ask_ollama_structured chat_down loads_empty_object example_model
        example_prompt (Some example_system_message) ''http://localhost:11434''
     = (Inl (Exn ''ConnectionError'' ''connection refused''), [])"
    by blast
  with inst1 have r4: "service_main chat_down loads_empty_object (\<lambda>j. Inr ''{}'')
     = (Inr (), print_line (''Attempting to query model: '' @ example_model) # []
                @ [print_line (''An error occurred: ''
                     @ exn_text (Exn ''ConnectionError'' ''connection refused''))])"
    by blast
  from h1 h2 r1 r2 r3 r4 show ?thesis by simp
qed

text \<open>
  Against claim C8 as it was stated: with the server down, the network error of the
  chat call leaves \<^verbatim>\<open>ask_ollama_structured\<close> as an exception, with nothing printed; and
  an answer that is not JSON leaves it as a \<^verbatim>\<open>JSONDecodeError\<close> after the warning.
  Neither is turned into a result.
\<close>

theorem client_failures_counterexample:
  "ask_ollama_structured chat_down loads_empty_object ''llama3'' ''Explain Docker'' None
       ''http://localhost:11434''
     = (Inl (Exn ''ConnectionError'' ''connection refused''), [])
   \<and> ask_ollama_structured chat_prose loads_empty_object ''llama3'' ''Explain Docker'' None
       ''http://localhost:11434''
     = (Inl (Exn ''JSONDecodeError'' ''Expecting value: line 1 column 1 (char 0)''),
        [''Warning: Model response was not valid JSON. Raw response: Sure, here it is''
         @ [CHR 0x0A]])"
  by (simp add: ask_ollama_structured_def dict_get_def print_line_def print_end_def Let_def
        chat_down_def chat_prose_def loads_empty_object_def)

section \<open>Properties of the tools\<close>





text \<open>
  Claim C10. For every key, value and state of the program, \<^verbatim>\<open>write_to_memory\<close>
  returns the confirmation \<^verbatim>\<open>Stored '<key>' = '<value>' in memory.\<close> and the state it
  was given: nothing is written anywhere. The state after the call does not depend on
  the value, whatever is read from the state afterwards is what was there before, and
  every later tool call gives what it would have given without the write: the value
  cannot be retrieved.
\<close>

theorem write_to_memory_frame:
  "write_to_memory key val st
     = (Inr (''Stored '' @ [CHR 0x27] @ key @ [CHR 0x27] @ '' = '' @ [CHR 0x27] @ val
             @ [CHR 0x27] @ '' in memory.''), st)
   \<and> snd (write_to_memory key val st) = st
   \<and> (\<forall>val'. snd (write_to_memory key val' st) = snd (write_to_memory key val st))
   \<and> (\<forall>read :: 's \<Rightarrow> string \<Rightarrow> string option.
         read (snd (write_to_memory key val st)) = read st)
   \<and> (\<forall>env inp. invoke_tool env inp (snd (write_to_memory key val st))
                  = invoke_tool env inp st)
   \<and> invoke_tool env (Write_to_memory_input key val) st = write_to_memory key val st"
  by (simp add: write_to_memory_def)

text \<open>
  Writing a name into the state of an agent run: the state is the one before, field by
  field.
\<close>

theorem write_to_memory_frame_witness:
  "snd (write_to_memory ''name'' ''Ada'' example_state) = example_state
   \<and> messages (snd (write_to_memory ''name'' ''Ada'' example_state)) = messages example_state
   \<and> result (snd (write_to_memory ''name'' ''Ada'' example_state)) = []
   \<and> iterations (snd (write_to_memory ''name'' ''Ada'' example_state)) = 1
   \<and> fst (write_to_memory ''name'' ''Ada'' example_state)
       = Inr (''Stored '' @ [CHR 0x27] @ ''name'' @ [CHR 0x27] @ '' = '' @ [CHR 0x27] @ ''Ada''
              @ [CHR 0x27] @ '' in memory.'')"
  using write_to_memory_frame[of "''name''" "''Ada''" example_state]
  by (simp add: example_state_def)

end
